theory Spec2Isabelle
  imports Main
begin

section \<open>JavaScript values\<close>

text \<open>
  The handlers of \<^verbatim>\<open>api/src/index.js\<close> work on values that come out of
  \<^verbatim>\<open>JSON.parse\<close> (the request body, the oracle's answer) and on \<^verbatim>\<open>undefined\<close>
  (a property that is not there). Numbers are restricted to integers. An object is the
  list of its own properties; a key is looked up with \<open>map_of\<close>.

  Strings are lists of 8-bit characters. The case mappings and \<^verbatim>\<open>trim\<close> below are the
  ASCII part of the JavaScript ones: on strings of ASCII characters they compute what
  \<^verbatim>\<open>toLowerCase\<close>, \<^verbatim>\<open>toUpperCase\<close> and \<^verbatim>\<open>trim\<close> compute; every other character is
  left as it is. The German messages of the source are written with the bytes of their
  UTF-8 encoding.
\<close>

datatype jsval =
    JUndefined
  | JNull
  | JBool bool
  | JNum int
  | JStr string
  | JArr "jsval list"
  | JObj "(string \<times> jsval) list"

text \<open>Truthiness: what \<^verbatim>\<open>!value\<close>, \<^verbatim>\<open>a || b\<close>, \<^verbatim>\<open>a && b\<close> and \<^verbatim>\<open>Boolean\<close> test.\<close>

fun truthy :: "jsval \<Rightarrow> bool" where
  "truthy JUndefined = False"
| "truthy JNull = False"
| "truthy (JBool b) = b"
| "truthy (JNum n) = (n \<noteq> 0)"
| "truthy (JStr s) = (s \<noteq> [])"
| "truthy (JArr xs) = True"
| "truthy (JObj kvs) = True"

text \<open>\<^verbatim>\<open>typeof v === "object"\<close>: true of \<^verbatim>\<open>null\<close>, of arrays and of objects.\<close>

fun typeof_object :: "jsval \<Rightarrow> bool" where
  "typeof_object JNull = True"
| "typeof_object (JArr xs) = True"
| "typeof_object (JObj kvs) = True"
| "typeof_object v = False"

text \<open>\<^verbatim>\<open>a ?? b\<close> falls through on \<^verbatim>\<open>null\<close> and \<^verbatim>\<open>undefined\<close> only;
  \<^verbatim>\<open>a || b\<close> on every falsy value.\<close>

fun nullish :: "jsval \<Rightarrow> bool" where
  "nullish JUndefined = True"
| "nullish JNull = True"
| "nullish v = False"

definition coalesce :: "jsval \<Rightarrow> jsval \<Rightarrow> jsval" where
  "coalesce a b = (if nullish a then b else a)"

definition js_or :: "jsval \<Rightarrow> jsval \<Rightarrow> jsval" where
  "js_or a b = (if truthy a then a else b)"

text \<open>
  Property access \<^verbatim>\<open>v.k\<close> / \<^verbatim>\<open>v[k]\<close> on a value that is neither \<^verbatim>\<open>null\<close> nor
  \<^verbatim>\<open>undefined\<close> (on those it throws a TypeError, which each caller below handles
  before it reads). None of the keys the handlers read is a property of the array,
  string or object prototypes, so on anything but an object the result is
  \<^verbatim>\<open>undefined\<close>.
\<close>

fun get :: "jsval \<Rightarrow> string \<Rightarrow> jsval" where
  "get (JObj kvs) k = (case map_of kvs k of Some v \<Rightarrow> v | None \<Rightarrow> JUndefined)"
| "get v k = JUndefined"

subsection \<open>Strings\<close>

definition lower_char :: "char \<Rightarrow> char" where
  "lower_char c =
     (case map_of (zip ''ABCDEFGHIJKLMNOPQRSTUVWXYZ'' ''abcdefghijklmnopqrstuvwxyz'') c of
        Some d \<Rightarrow> d | None \<Rightarrow> c)"

definition upper_char :: "char \<Rightarrow> char" where
  "upper_char c =
     (case map_of (zip ''abcdefghijklmnopqrstuvwxyz'' ''ABCDEFGHIJKLMNOPQRSTUVWXYZ'') c of
        Some d \<Rightarrow> d | None \<Rightarrow> c)"

definition toLowerCase :: "string \<Rightarrow> string" where
  "toLowerCase s = map lower_char s"

definition toUpperCase :: "string \<Rightarrow> string" where
  "toUpperCase s = map upper_char s"

text \<open>The ASCII white space and line terminators: tab, LF, VT, FF, CR and space.\<close>

definition is_space :: "char \<Rightarrow> bool" where
  "is_space c = (c \<in> set [CHR 0x09, CHR 0x0A, CHR 0x0B, CHR 0x0C, CHR 0x0D, CHR '' ''])"

definition trim :: "string \<Rightarrow> string" where
  "trim s = rev (dropWhile is_space (rev (dropWhile is_space s)))"

text \<open>\<^verbatim>\<open>String(v)\<close>: an array is its elements joined by commas, \<^verbatim>\<open>null\<close> and
  \<^verbatim>\<open>undefined\<close> elements as the empty string.\<close>

fun nat_str :: "nat \<Rightarrow> string" where
  "nat_str n =
     (if n < 10 then [char_of (48 + n)]
      else nat_str (n div 10) @ [char_of (48 + n mod 10)])"

definition int_str :: "int \<Rightarrow> string" where
  "int_str i = (if i < 0 then CHR ''-'' # nat_str (nat (- i)) else nat_str (nat i))"

fun join_comma :: "string list \<Rightarrow> string" where
  "join_comma [] = []"
| "join_comma [s] = s"
| "join_comma (s # t # ts) = s @ '','' @ join_comma (t # ts)"

fun js_String :: "jsval \<Rightarrow> string" where
  "js_String JUndefined = ''undefined''"
| "js_String JNull = ''null''"
| "js_String (JBool b) = (if b then ''true'' else ''false'')"
| "js_String (JNum n) = int_str n"
| "js_String (JStr s) = s"
| "js_String (JArr xs) = join_comma (map (\<lambda>x. if nullish x then [] else js_String x) xs)"
| "js_String (JObj kvs) = ''[object Object]''"

section \<open>Morphology\<close>

text \<open>\<^verbatim>\<open>allowedPos\<close> (index.js, lines 582--592).\<close>

definition allowedPos :: "string list" where
  "allowedPos =
     [''noun'', ''verb'', ''adjective'', ''adverb'', ''interjection'', ''particle'',
      ''conjunction'', ''preposition'', ''phrase'']"

text \<open>
  \<^verbatim>\<open>Array.from(new Set(xs))\<close>: a Set keeps the first occurrence of every element, in
  insertion order. \<open>push_new\<close> is also the \<^verbatim>\<open>if (!list.includes(x)) list.push(x)\<close>
  of \<^verbatim>\<open>aggregateAlternatives\<close>.
\<close>

definition push_new :: "'a list \<Rightarrow> 'a \<Rightarrow> 'a list" where
  "push_new acc x = (if x \<in> set acc then acc else acc @ [x])"

definition unique :: "'a list \<Rightarrow> 'a list" where
  "unique xs = foldl push_new [] xs"

text \<open>\<^verbatim>\<open>normalizePartOfSpeech\<close> (lines 594--602).\<close>

definition normalizePartOfSpeech :: "jsval \<Rightarrow> string list" where
  "normalizePartOfSpeech v =
     (if \<not> truthy v then []
      else
        let list = (case v of JArr xs \<Rightarrow> xs | _ \<Rightarrow> [v]);
            normalized =
              filter (\<lambda>item. item \<in> set allowedPos)
                (map (\<lambda>item. trim (toLowerCase (js_String item))) list);
            uniq = unique normalized
        in take 1 uniq)"

text \<open>\<^verbatim>\<open>capitalizeFirst\<close> (lines 604--608).\<close>

definition capitalizeFirst :: "jsval \<Rightarrow> jsval" where
  "capitalizeFirst v =
     (case v of
        JStr (c # cs) \<Rightarrow> JStr (toUpperCase [c] @ cs)
      | _ \<Rightarrow> v)"




section \<open>Requests, configuration and the oracle\<close>

text \<open>
  A handler answers an error with \<^verbatim>\<open>res.status(n).json({ error: msg })\<close>: the pair
  \<open>(n, msg)\<close>. The environment gives \<^verbatim>\<open>ADMIN_PASSWORD\<close> and \<^verbatim>\<open>OPENAI_API_KEY\<close>
  (lines 13--15); \<open>is_set\<close> is the truthiness of such a variable. \<^verbatim>\<open>requireAuth\<close>
  (lines 30--37) passes a request whose cookie \<^verbatim>\<open>duden_auth\<close> is \<^verbatim>\<open>"1"\<close>.
\<close>

type_synonym http_error = "nat \<times> string"

record config =
  ADMIN_PASSWORD :: "string option"
  OPENAI_API_KEY :: "string option"

definition is_set :: "string option \<Rightarrow> bool" where
  "is_set v = (case v of Some s \<Rightarrow> s \<noteq> [] | None \<Rightarrow> False)"

text \<open>
  One call of \<^verbatim>\<open>openai.chat.completions.create\<close> and the reading of its answer:
  the call throws (\<open>ApiError\<close>, with the error's message), or it returns a completion
  whose \<^verbatim>\<open>choices[0].message.content\<close> is missing or empty (\<open>NoContent\<close>), is not
  JSON (\<open>Malformed\<close>, with the message of the SyntaxError of \<^verbatim>\<open>JSON.parse\<close>), or
  parses to a value (\<open>Parsed\<close>). The second argument of \<open>Completion\<close> is
  \<^verbatim>\<open>completion.model\<close>, empty when absent.
\<close>

datatype content = NoContent | Malformed string | Parsed jsval

datatype completion = ApiError string | Completion content string

section \<open>Saving an entry\<close>





section \<open>Field completion\<close>

text \<open>
  \<^verbatim>\<open>POST /api/entries/ai-complete\<close> (lines 152--215). Everything thrown inside the
  \<^verbatim>\<open>try\<close> block ends in the answer 500: the call of the oracle, the missing
  content, \<^verbatim>\<open>JSON.parse\<close>, and the TypeError of \<^verbatim>\<open>parsed.term\<close> when the
  answer parses to \<^verbatim>\<open>null\<close>.
\<close>

definition ai_complete :: "config \<Rightarrow> string option \<Rightarrow> jsval \<Rightarrow> completion \<Rightarrow> http_error + jsval" where
  "ai_complete cfg cookie req_body reply =
     (if \<not> is_set (ADMIN_PASSWORD cfg) then Inl (400, ''AI login is not configured'')
      else if cookie \<noteq> Some ''1'' then Inl (401, ''unauthorized'')
      else if \<not> is_set (OPENAI_API_KEY cfg) then Inl (400, ''AI completion is not configured'')
      else
        let body = js_or req_body (JObj []);
            term = get body ''term'';
            definition = get body ''definition'';
            example = get body ''example'';
            synonyms = get body ''synonyms'';
            partOfSpeech = get body ''partOfSpeech'';
            article = get body ''article''
        in if \<not> truthy term \<and> \<not> truthy definition \<and> \<not> truthy example \<and> \<not> truthy synonyms
           then Inl (400, ''Provide at least term, definition, example, or synonyms'')
           else
             (case reply of
                ApiError m \<Rightarrow> Inl (500, ''AI completion failed'')
              | Completion NoContent mv \<Rightarrow> Inl (500, ''AI completion failed'')
              | Completion (Malformed m) mv \<Rightarrow> Inl (500, ''AI completion failed'')
              | Completion (Parsed parsed) mv \<Rightarrow>
                  if nullish parsed then Inl (500, ''AI completion failed'')
                  else
                    Inr (JObj
                      [(''term'', coalesce (get parsed ''term'') (coalesce term (JStr ''''))),
                       (''definition'',
                          coalesce (get parsed ''definition'') (coalesce definition (JStr ''''))),
                       (''example'',
                          coalesce (get parsed ''example'') (coalesce example (JStr ''''))),
                       (''synonyms'',
                          coalesce (get parsed ''synonyms'') (coalesce synonyms (JStr ''''))),
                       (''partOfSpeech'',
                          JArr (map JStr
                            (normalizePartOfSpeech
                               (coalesce (get parsed ''partOfSpeech'') partOfSpeech)))),
                       (''article'',
                          coalesce (get parsed ''article'') (coalesce article (JStr '''')))])))"

section \<open>Spelling review\<close>

text \<open>
  \<^verbatim>\<open>POST /api/entries/spellcheck\<close> (lines 458--580). The result for one field is
  the object \<^verbatim>\<open>{ corrected, suggestions, lemma, partOfSpeech, article }\<close>; the field
  \<open>lemma_form\<close> is its \<^verbatim>\<open>lemma\<close>. The reason of the capitalization suggestion is
  \<^verbatim>\<open>"Grossschreibung (Nomen)"\<close>, written with sharp s in the source.
\<close>

record review_result =
  corrected :: jsval
  suggestions :: "jsval list"
  lemma_form :: jsval
  partOfSpeech :: "string list"
  article :: jsval

definition neutral_result :: review_result where
  "neutral_result =
     \<lparr>corrected = JNull, suggestions = [], lemma_form = JNull, partOfSpeech = [],
      article = JNull\<rparr>"

definition allowedFields :: "string list" where
  "allowedFields = [''term'', ''definition'', ''example'', ''synonyms'']"

definition requestedFields :: "jsval \<Rightarrow> string list" where
  "requestedFields body =
     (case get body ''userFields'' of
        JArr fs \<Rightarrow>
          concat (map (\<lambda>field. case field of
                                 JStr s \<Rightarrow> if s \<in> set allowedFields then [s] else []
                               | _ \<Rightarrow> []) fs)
      | _ \<Rightarrow> allowedFields)"

definition fieldsToReview :: "jsval \<Rightarrow> string list" where
  "fieldsToReview body =
     (let userInputMap =
            (if truthy (get body ''userInput'') \<and> typeof_object (get body ''userInput'')
             then Some (get body ''userInput'') else None)
      in filter (\<lambda>field.
           if \<not> truthy (get body field) then False
           else (case userInputMap of
                   Some m \<Rightarrow> truthy (get m field)
                 | None \<Rightarrow> True))
         (requestedFields body))"

text \<open>\<^verbatim>\<open>typeof v === "string" && v.trim()\<close>.\<close>

definition nonblank :: "jsval \<Rightarrow> bool" where
  "nonblank v = (case v of JStr s \<Rightarrow> trim s \<noteq> [] | _ \<Rightarrow> False)"

definition capitalization_reason :: string where
  "capitalization_reason = ''Gro'' @ [CHR 0xC3, CHR 0x9F] @ ''schreibung (Nomen)''"

text \<open>The body of the \<^verbatim>\<open>forEach\<close> of lines 532--572: the result for one field.\<close>

definition review_field :: "jsval \<Rightarrow> jsval \<Rightarrow> string \<Rightarrow> review_result" where
  "review_field body parsed field =
     (let v = get parsed field
      in if truthy v \<and> typeof_object v then
           let normalizedPos =
                 normalizePartOfSpeech (js_or (get v ''partOfSpeech'') (get v ''pos''));
               original = get body field;
               result =
                 \<lparr>corrected =
                    (if nonblank (get v ''corrected'') then get v ''corrected'' else JNull),
                  suggestions = (case get v ''suggestions'' of JArr xs \<Rightarrow> xs | _ \<Rightarrow> []),
                  lemma_form =
                    (case get v ''lemma'' of
                       JStr s \<Rightarrow> if trim s \<noteq> [] then JStr (trim s) else JNull
                     | _ \<Rightarrow> JNull),
                  partOfSpeech = normalizedPos,
                  article =
                    (case get v ''article'' of
                       JStr s \<Rightarrow> if trim s \<noteq> [] then JStr (toLowerCase (trim s)) else JNull
                     | _ \<Rightarrow> JNull)\<rparr>
           in if field = ''term'' \<and> ''noun'' \<in> set (partOfSpeech result) then
                let originalTerm = (case original of JStr s \<Rightarrow> JStr s | _ \<Rightarrow> JStr '''');
                    base = js_or (corrected result) originalTerm;
                    capitalized = capitalizeFirst base
                in if truthy capitalized \<and> capitalized \<noteq> base then
                     result
                       \<lparr>corrected := capitalized,
                        suggestions :=
                          suggestions result @
                            [JObj [(''from'', js_or originalTerm base),
                                   (''to'', capitalized),
                                   (''reason'', JStr capitalization_reason)]]\<rparr>
                   else result
              else result
         else neutral_result)"

definition spellcheck ::
  "config \<Rightarrow> string option \<Rightarrow> jsval \<Rightarrow> completion \<Rightarrow> http_error + (string \<rightharpoonup> review_result)"
where
  "spellcheck cfg cookie req_body reply =
     (if \<not> is_set (ADMIN_PASSWORD cfg) then Inl (400, ''AI login is not configured'')
      else if cookie \<noteq> Some ''1'' then Inl (401, ''unauthorized'')
      else if \<not> is_set (OPENAI_API_KEY cfg) then Inl (400, ''Spellcheck is not configured'')
      else
        let body = js_or req_body (JObj [])
        in if fieldsToReview body = []
           then Inl (400, ''Provide at least one user-entered field to review'')
           else
             (case reply of
                ApiError m \<Rightarrow> Inl (500, ''Spell review failed'')
              | Completion NoContent mv \<Rightarrow> Inl (500, ''Spell review failed'')
              | Completion (Malformed m) mv \<Rightarrow> Inl (500, ''Spell review failed'')
              | Completion (Parsed parsed) mv \<Rightarrow>
                  if nullish parsed then Inl (500, ''Spell review failed'')
                  else
                    Inr (foldl (\<lambda>result field. result(field \<mapsto> review_field body parsed field))
                           Map.empty (fieldsToReview body))))"


section \<open>Situational alternatives\<close>



subsection \<open>The answer of the oracle\<close>








subsection \<open>The stored alternatives\<close>

text \<open>
  The collection \<^verbatim>\<open>Alternative\<close> is the list of its documents in the order of their
  insertion; a timestamp is a number. The schema (lines 98--107) trims \<^verbatim>\<open>item\<close>,
  \<^verbatim>\<open>alternative_text\<close> and \<^verbatim>\<open>model_version\<close> and requires the first two and
  \<^verbatim>\<open>situation\<close>, which must be one of the five keys. Mongoose applies the trimming
  to a document that is written and to the \<^verbatim>\<open>item\<close> of a query filter, and
  \<^verbatim>\<open>insertMany\<close> rejects the whole batch when a document is not valid.
  \<^verbatim>\<open>sort({ timestamp: 1 })\<close> is a stable sort: documents of the same timestamp stay
  in the order of their insertion.
\<close>

record alternative =
  item :: string
  situation :: string
  alternative_text :: string
  timestamp :: nat
  model_version :: string

definition find_item :: "alternative list \<Rightarrow> string \<Rightarrow> alternative list" where
  "find_item coll q = filter (\<lambda>doc. item doc = trim q) coll"





subsection \<open>Generating alternatives\<close>







subsection \<open>The uniqueness of the stored texts\<close>

text \<open>
  \<open>stored coll i k\<close> are the stored records of the pair (item \<open>i\<close>, situation \<open>k\<close>), in
  the order of their insertion. \<open>ci_unique coll\<close>: no two records of the collection have
  the same item, the same situation and the same text after lower-casing, that is, within
  every (item, situation) pair the texts are unique under case-insensitive comparison.
  \<open>run_generate\<close> is a sequence of generate requests, handled one after the other; each
  request is its body, the answer of the oracle and the time of the call.
\<close>

definition stored :: "alternative list \<Rightarrow> string \<Rightarrow> string \<Rightarrow> alternative list" where
  "stored coll i k = filter (\<lambda>d. item d = i \<and> situation d = k) coll"



section \<open>Properties of the morphology functions\<close>

lemma push_new_nonempty: "acc \<noteq> [] \<Longrightarrow> push_new acc x \<noteq> []"
  by (simp add: push_new_def)

lemma push_new_take1: "acc \<noteq> [] \<Longrightarrow> take 1 (push_new acc x) = take 1 acc"
  by (cases acc) (simp_all add: push_new_def)

lemma take1_foldl_push_new:
  "acc \<noteq> [] \<Longrightarrow> take 1 (foldl push_new acc xs) = take 1 acc"
proof (induction xs arbitrary: acc)
  case Nil
  show ?case by simp
next
  case (Cons x xs)
  have "take 1 (foldl push_new acc (x # xs)) = take 1 (foldl push_new (push_new acc x) xs)"
    by simp
  also have "\<dots> = take 1 (push_new acc x)"
    by (rule Cons.IH) (rule push_new_nonempty [OF Cons.prems])
  also have "\<dots> = take 1 acc"
    by (rule push_new_take1 [OF Cons.prems])
  finally show ?case .
qed

lemma take1_unique: "take 1 (unique xs) = take 1 xs"
proof (cases xs)
  case Nil
  then show ?thesis by (simp add: unique_def)
next
  case (Cons x ys)
  have "take 1 (foldl push_new [x] ys) = take 1 [x]"
    by (rule take1_foldl_push_new) simp
  then show ?thesis unfolding Cons unique_def by (simp add: push_new_def)
qed



lemma normalizePartOfSpeech_first:
  "normalizePartOfSpeech v =
     (if truthy v
      then take 1 (filter (\<lambda>t. t \<in> set allowedPos)
             (map (\<lambda>item. trim (toLowerCase (js_String item)))
                (case v of JArr xs \<Rightarrow> xs | _ \<Rightarrow> [v])))
      else [])"
  unfolding normalizePartOfSpeech_def Let_def take1_unique by simp







section \<open>Validation of the morphology\<close>


section \<open>The article of an entry that is not a noun\<close>

lemma get_js_or_empty: "get (js_or b (JObj [])) k = get b k"
  by (cases b) (simp_all add: js_or_def)






section \<open>The result of a completion\<close>

lemma canonical_tag_fixed:
  "t \<in> set allowedPos \<Longrightarrow> trim (toLowerCase t) = t"
  unfolding allowedPos_def
  by (auto simp: toLowerCase_def lower_char_def trim_def is_space_def)

lemma normalizePartOfSpeech_canonical_tag:
  assumes "t \<in> set allowedPos"
  shows "normalizePartOfSpeech (JArr [JStr t]) = [t]"
  using assms canonical_tag_fixed [OF assms]
  by (simp add: normalizePartOfSpeech_first)

lemma ai_complete_Inr:
  assumes "ai_complete cfg cookie body reply = Inr r"
  shows "\<exists>parsed mv. reply = Completion (Parsed parsed) mv \<and> \<not> nullish parsed
    \<and> r = JObj
         [(''term'', coalesce (get parsed ''term'') (coalesce (get body ''term'') (JStr ''''))),
          (''definition'',
             coalesce (get parsed ''definition'') (coalesce (get body ''definition'') (JStr ''''))),
          (''example'',
             coalesce (get parsed ''example'') (coalesce (get body ''example'') (JStr ''''))),
          (''synonyms'',
             coalesce (get parsed ''synonyms'') (coalesce (get body ''synonyms'') (JStr ''''))),
          (''partOfSpeech'',
             JArr (map JStr
               (normalizePartOfSpeech
                  (coalesce (get parsed ''partOfSpeech'') (get body ''partOfSpeech''))))),
          (''article'',
             coalesce (get parsed ''article'') (coalesce (get body ''article'') (JStr '''')))]"
  using assms unfolding ai_complete_def Let_def get_js_or_empty
  by (auto split: if_splits completion.splits content.splits)

text \<open>
  Claim C1, as stated, fails: with \<^verbatim>\<open>partOfSpeech = ["noun"]\<close> and
  \<^verbatim>\<open>article = "die"\<close> in the request and an answer of the oracle that proposes
  \<^verbatim>\<open>partOfSpeech = ["verb"]\<close>, the result has \<^verbatim>\<open>["verb"]\<close>
  (\<^verbatim>\<open>normalizePartOfSpeech(parsed.partOfSpeech ?? partOfSpeech)\<close>, line 207).
\<close>

theorem ai_complete_morphology_counterexample:
  "ai_complete \<lparr>ADMIN_PASSWORD = Some ''secret'', OPENAI_API_KEY = Some ''key''\<rparr> (Some ''1'')
     (JObj [(''term'', JStr ''Katze''), (''partOfSpeech'', JArr [JStr ''noun'']),
            (''article'', JStr ''die'')])
     (Completion
        (Parsed (JObj [(''definition'', JStr ''ein Haustier''),
                       (''partOfSpeech'', JArr [JStr ''verb''])]))
        ''gpt-4o-mini'')
   = Inr (JObj [(''term'', JStr ''Katze''), (''definition'', JStr ''ein Haustier''),
                (''example'', JStr ''''), (''synonyms'', JStr ''''),
                (''partOfSpeech'', JArr [JStr ''verb'']), (''article'', JStr ''die'')])"
proof -
  have pos: "normalizePartOfSpeech (JArr [JStr ''verb'']) = [''verb'']"
    by code_simp
  show ?thesis
    by (simp add: ai_complete_def is_set_def js_or_def coalesce_def pos)
qed

text \<open>
  Claim C1, amended. In the result of a successful ai-complete call the oracle's
  proposal comes first: partOfSpeech is \<^verbatim>\<open>normalizePartOfSpeech\<close> of the oracle's
  partOfSpeech when the answer has one (not null, not undefined), and of the input's
  otherwise; article is the oracle's article when the answer has one, else the input's,
  else the empty string. So the input's partOfSpeech and article are retained when the
  oracle's answer has none: an input partOfSpeech that is one canonical tag comes back
  unchanged, and the input article comes back as it is.
\<close>

theorem ai_complete_morphology_oracle_first:
  assumes "ai_complete cfg cookie body (Completion (Parsed parsed) mv) = Inr r"
  shows "get r ''partOfSpeech'' =
           JArr (map JStr (normalizePartOfSpeech
             (if nullish (get parsed ''partOfSpeech'') then get body ''partOfSpeech''
              else get parsed ''partOfSpeech'')))
    \<and> get r ''article'' =
          (if nullish (get parsed ''article'')
           then (if nullish (get body ''article'') then JStr '''' else get body ''article'')
           else get parsed ''article'')
    \<and> (nullish (get parsed ''partOfSpeech'') \<and> t \<in> set allowedPos
          \<and> get body ''partOfSpeech'' = JArr [JStr t]
        \<longrightarrow> get r ''partOfSpeech'' = JArr [JStr t])"
proof -
  from ai_complete_Inr [OF assms]
  have r: "r = JObj
         [(''term'', coalesce (get parsed ''term'') (coalesce (get body ''term'') (JStr ''''))),
          (''definition'',
             coalesce (get parsed ''definition'') (coalesce (get body ''definition'') (JStr ''''))),
          (''example'',
             coalesce (get parsed ''example'') (coalesce (get body ''example'') (JStr ''''))),
          (''synonyms'',
             coalesce (get parsed ''synonyms'') (coalesce (get body ''synonyms'') (JStr ''''))),
          (''partOfSpeech'',
             JArr (map JStr
               (normalizePartOfSpeech
                  (coalesce (get parsed ''partOfSpeech'') (get body ''partOfSpeech''))))),
          (''article'',
             coalesce (get parsed ''article'') (coalesce (get body ''article'') (JStr '''')))]"
    by simp
  have p: "get r ''partOfSpeech'' =
           JArr (map JStr (normalizePartOfSpeech
             (if nullish (get parsed ''partOfSpeech'') then get body ''partOfSpeech''
              else get parsed ''partOfSpeech'')))"
    unfolding r by (simp add: coalesce_def)
  have a: "get r ''article'' =
          (if nullish (get parsed ''article'')
           then (if nullish (get body ''article'') then JStr '''' else get body ''article'')
           else get parsed ''article'')"
    unfolding r by (simp add: coalesce_def)
  have k: "nullish (get parsed ''partOfSpeech'') \<and> t \<in> set allowedPos
          \<and> get body ''partOfSpeech'' = JArr [JStr t]
        \<longrightarrow> get r ''partOfSpeech'' = JArr [JStr t]"
  proof
    assume h: "nullish (get parsed ''partOfSpeech'') \<and> t \<in> set allowedPos
          \<and> get body ''partOfSpeech'' = JArr [JStr t]"
    then have "normalizePartOfSpeech (JArr [JStr t]) = [t]"
      by (simp add: normalizePartOfSpeech_canonical_tag)
    with h show "get r ''partOfSpeech'' = JArr [JStr t]"
      unfolding p by simp
  qed
  from p a k show ?thesis by (intro conjI)
qed

theorem ai_complete_morphology_oracle_first_witness:
  "ai_complete \<lparr>ADMIN_PASSWORD = Some ''secret'', OPENAI_API_KEY = Some ''key''\<rparr> (Some ''1'')
     (JObj [(''term'', JStr ''Katze''), (''partOfSpeech'', JArr [JStr ''noun'']),
            (''article'', JStr ''die'')])
     (Completion (Parsed (JObj [(''definition'', JStr ''ein Haustier'')])) ''gpt-4o-mini'')
   = Inr (JObj [(''term'', JStr ''Katze''), (''definition'', JStr ''ein Haustier''),
                (''example'', JStr ''''), (''synonyms'', JStr ''''),
                (''partOfSpeech'', JArr [JStr ''noun'']), (''article'', JStr ''die'')])
   \<and> nullish (get (JObj [(''definition'', JStr ''ein Haustier'')]) ''partOfSpeech'')
   \<and> ''noun'' \<in> set allowedPos
   \<and> get (JObj [(''term'', JStr ''Katze''), (''definition'', JStr ''ein Haustier''),
                (''example'', JStr ''''), (''synonyms'', JStr ''''),
                (''partOfSpeech'', JArr [JStr ''noun'']), (''article'', JStr ''die'')])
        ''partOfSpeech'' = JArr [JStr ''noun'']"
proof -
  let ?cfg = "\<lparr>ADMIN_PASSWORD = Some ''secret'', OPENAI_API_KEY = Some ''key''\<rparr>"
  let ?body = "JObj [(''term'', JStr ''Katze''), (''partOfSpeech'', JArr [JStr ''noun'']),
            (''article'', JStr ''die'')]"
  let ?parsed = "JObj [(''definition'', JStr ''ein Haustier'')]"
  let ?r = "JObj [(''term'', JStr ''Katze''), (''definition'', JStr ''ein Haustier''),
                (''example'', JStr ''''), (''synonyms'', JStr ''''),
                (''partOfSpeech'', JArr [JStr ''noun'']), (''article'', JStr ''die'')]"
  have pos: "normalizePartOfSpeech (JArr [JStr ''noun'']) = [''noun'']"
    by code_simp
  have run: "ai_complete ?cfg (Some ''1'') ?body (Completion (Parsed ?parsed) ''gpt-4o-mini'') = Inr ?r"
    by (simp add: ai_complete_def is_set_def js_or_def coalesce_def pos)
  have h1: "nullish (get ?parsed ''partOfSpeech'')" by simp
  have h2: "''noun'' \<in> set allowedPos" by (simp add: allowedPos_def)
  have h3: "get ?body ''partOfSpeech'' = JArr [JStr ''noun'']" by simp
  have h: "nullish (get ?parsed ''partOfSpeech'') \<and> ''noun'' \<in> set allowedPos
          \<and> get ?body ''partOfSpeech'' = JArr [JStr ''noun'']"
    using h1 h2 h3 by (intro conjI)
  have c: "get ?r ''partOfSpeech'' = JArr [JStr ''noun'']"
    using ai_complete_morphology_oracle_first
      [OF run, of "''noun''", THEN conjunct2, THEN conjunct2, THEN mp, OF h] .
  show ?thesis using run h1 h2 c by (intro conjI)
qed

text \<open>
  Claim C6, as stated, fails on an empty answer: \<^verbatim>\<open>parsed.term ?? term ?? ""\<close>
  (lines 203--206) falls back on \<^verbatim>\<open>null\<close> and \<^verbatim>\<open>undefined\<close> only, so an empty
  string of the oracle replaces the caller's text in the result.
\<close>

theorem ai_complete_empty_answer_counterexample:
  "ai_complete \<lparr>ADMIN_PASSWORD = Some ''secret'', OPENAI_API_KEY = Some ''key''\<rparr> (Some ''1'')
     (JObj [(''term'', JStr ''laufen'')])
     (Completion
        (Parsed (JObj [(''term'', JStr ''''), (''definition'', JStr ''sich fortbewegen'')]))
        ''gpt-4o-mini'')
   = Inr (JObj [(''term'', JStr ''''), (''definition'', JStr ''sich fortbewegen''),
                (''example'', JStr ''''), (''synonyms'', JStr ''''),
                (''partOfSpeech'', JArr []), (''article'', JStr '''')])"
proof -
  have pos: "normalizePartOfSpeech JUndefined = []"
    by (simp add: normalizePartOfSpeech_def)
  show ?thesis
    by (simp add: ai_complete_def is_set_def js_or_def coalesce_def pos)
qed

text \<open>
  Claim C6, amended. For every successful completion call, each of the four content
  fields of the result is the oracle's value for that field when the answer has one
  (anything but null and undefined, the empty string included); when the oracle omitted
  the field or returned null, it is the caller's input value, and the empty string when
  the input has none either. An empty string of the oracle is returned as it is.
\<close>

theorem ai_complete_content_fields:
  assumes "ai_complete cfg cookie body (Completion (Parsed parsed) mv) = Inr r"
    and "f \<in> set [''term'', ''definition'', ''example'', ''synonyms'']"
  shows "get r f =
           (if nullish (get parsed f)
            then (if nullish (get body f) then JStr '''' else get body f)
            else get parsed f)
     \<and> (get parsed f = JStr '''' \<longrightarrow> get r f = JStr '''')"
proof -
  from ai_complete_Inr [OF assms(1)]
  have r: "r = JObj
         [(''term'', coalesce (get parsed ''term'') (coalesce (get body ''term'') (JStr ''''))),
          (''definition'',
             coalesce (get parsed ''definition'') (coalesce (get body ''definition'') (JStr ''''))),
          (''example'',
             coalesce (get parsed ''example'') (coalesce (get body ''example'') (JStr ''''))),
          (''synonyms'',
             coalesce (get parsed ''synonyms'') (coalesce (get body ''synonyms'') (JStr ''''))),
          (''partOfSpeech'',
             JArr (map JStr
               (normalizePartOfSpeech
                  (coalesce (get parsed ''partOfSpeech'') (get body ''partOfSpeech''))))),
          (''article'',
             coalesce (get parsed ''article'') (coalesce (get body ''article'') (JStr '''')))]"
    by simp
  have g: "get r f = coalesce (get parsed f) (coalesce (get body f) (JStr ''''))"
    using assms(2) unfolding r by auto
  have main: "get r f =
           (if nullish (get parsed f)
            then (if nullish (get body f) then JStr '''' else get body f)
            else get parsed f)"
    unfolding g by (simp add: coalesce_def)
  have "get parsed f = JStr '''' \<longrightarrow> get r f = JStr ''''"
    unfolding main by simp
  with main show ?thesis by (rule conjI)
qed

theorem ai_complete_content_fields_witness:
  "ai_complete \<lparr>ADMIN_PASSWORD = Some ''secret'', OPENAI_API_KEY = Some ''key''\<rparr> (Some ''1'')
     (JObj [(''term'', JStr ''laufen''), (''example'', JStr ''Er laeuft.'')])
     (Completion
        (Parsed (JObj [(''definition'', JStr ''sich fortbewegen''), (''example'', JNull)]))
        ''gpt-4o-mini'')
   = Inr (JObj [(''term'', JStr ''laufen''), (''definition'', JStr ''sich fortbewegen''),
                (''example'', JStr ''Er laeuft.''), (''synonyms'', JStr ''''),
                (''partOfSpeech'', JArr []), (''article'', JStr '''')])
   \<and> ''example'' \<in> set [''term'', ''definition'', ''example'', ''synonyms'']
   \<and> get (JObj [(''term'', JStr ''laufen''), (''definition'', JStr ''sich fortbewegen''),
                (''example'', JStr ''Er laeuft.''), (''synonyms'', JStr ''''),
                (''partOfSpeech'', JArr []), (''article'', JStr '''')]) ''example''
      = get (JObj [(''term'', JStr ''laufen''), (''example'', JStr ''Er laeuft.'')]) ''example''"
proof -
  let ?cfg = "\<lparr>ADMIN_PASSWORD = Some ''secret'', OPENAI_API_KEY = Some ''key''\<rparr>"
  let ?body = "JObj [(''term'', JStr ''laufen''), (''example'', JStr ''Er laeuft.'')]"
  let ?parsed = "JObj [(''definition'', JStr ''sich fortbewegen''), (''example'', JNull)]"
  let ?r = "JObj [(''term'', JStr ''laufen''), (''definition'', JStr ''sich fortbewegen''),
                (''example'', JStr ''Er laeuft.''), (''synonyms'', JStr ''''),
                (''partOfSpeech'', JArr []), (''article'', JStr '''')]"
  have pos: "normalizePartOfSpeech JUndefined = []"
    by (simp add: normalizePartOfSpeech_def)
  have run: "ai_complete ?cfg (Some ''1'') ?body (Completion (Parsed ?parsed) ''gpt-4o-mini'') = Inr ?r"
    by (simp add: ai_complete_def is_set_def js_or_def coalesce_def pos)
  have f: "''example'' \<in> set [''term'', ''definition'', ''example'', ''synonyms'']"
    by simp
  have "get ?r ''example'' =
           (if nullish (get ?parsed ''example'')
            then (if nullish (get ?body ''example'') then JStr '''' else get ?body ''example'')
            else get ?parsed ''example'')"
    using ai_complete_content_fields [OF run f] by (rule conjunct1)
  then have c: "get ?r ''example'' = get ?body ''example''"
    by simp
  show ?thesis using run f c by (intro conjI)
qed
section \<open>The answer of a review\<close>

lemma foldl_map_upd:
  "(foldl (\<lambda>m f. m(f \<mapsto> g f)) m0 fs) k = (if k \<in> set fs then Some (g k) else m0 k)"
  by (induction fs arbitrary: m0) simp_all

lemma requestedFields_js_or: "requestedFields (js_or b (JObj [])) = requestedFields b"
  unfolding requestedFields_def get_js_or_empty by (rule refl)

lemma fieldsToReview_js_or: "fieldsToReview (js_or b (JObj [])) = fieldsToReview b"
  unfolding fieldsToReview_def get_js_or_empty requestedFields_js_or by (rule refl)

lemma review_field_js_or:
  "review_field (js_or b (JObj [])) parsed f = review_field b parsed f"
  unfolding review_field_def get_js_or_empty by (rule refl)

lemma spellcheck_Inr:
  assumes "spellcheck cfg cookie body reply = Inr result"
  shows "\<exists>parsed mv. reply = Completion (Parsed parsed) mv \<and> \<not> nullish parsed
    \<and> fieldsToReview body \<noteq> []
    \<and> result = foldl (\<lambda>result field. result(field \<mapsto> review_field body parsed field))
                 Map.empty (fieldsToReview body)"
  using assms
  unfolding spellcheck_def Let_def fieldsToReview_js_or review_field_js_or
  by (auto split: if_splits completion.splits content.splits)

lemma spellcheck_entry:
  assumes "spellcheck cfg cookie body (Completion (Parsed parsed) mv) = Inr result"
  shows "result f = (if f \<in> set (fieldsToReview body)
                     then Some (review_field body parsed f) else None)"
proof -
  from spellcheck_Inr [OF assms]
  have "result = foldl (\<lambda>result field. result(field \<mapsto> review_field body parsed field))
                 Map.empty (fieldsToReview body)"
    by simp
  then show ?thesis by (simp add: foldl_map_upd)
qed

lemma normalizePartOfSpeech_undefined: "normalizePartOfSpeech JUndefined = []"
  by (simp add: normalizePartOfSpeech_def)

lemma review_field_non_object:
  "(case get parsed f of JObj kvs \<Rightarrow> True | _ \<Rightarrow> review_field body parsed f = neutral_result)"
  by (cases "get parsed f")
     (simp_all add: review_field_def Let_def neutral_result_def js_or_def nonblank_def
        normalizePartOfSpeech_undefined)

text \<open>
  Claim C10. For every successful review call, the returned map has an entry for every
  field that was selected for review, and for no other field; if the oracle's answer
  omits a reviewed field or has anything but an object for it (null, a boolean, a number,
  a string, or an array, whose entries the handler does not read), the entry of that
  field is the neutral result \<^verbatim>\<open>{ corrected: null, suggestions: [], partOfSpeech: [],
  article: null, lemma: null }\<close>.
\<close>

theorem spellcheck_every_reviewed_field:
  assumes "spellcheck cfg cookie body (Completion (Parsed parsed) mv) = Inr result"
  shows "dom result = set (fieldsToReview body)
    \<and> fieldsToReview body \<noteq> []
    \<and> (\<forall>f \<in> set (fieldsToReview body).
          result f = Some (review_field body parsed f)
          \<and> (case get parsed f of
                JObj kvs \<Rightarrow> True
              | _ \<Rightarrow> result f = Some neutral_result))"
proof (intro conjI ballI)
  show "dom result = set (fieldsToReview body)"
    by (auto simp: dom_def spellcheck_entry [OF assms])
  show "fieldsToReview body \<noteq> []"
    using spellcheck_Inr [OF assms] by simp
next
  fix f assume f: "f \<in> set (fieldsToReview body)"
  then show r: "result f = Some (review_field body parsed f)"
    by (simp add: spellcheck_entry [OF assms])
  show "case get parsed f of JObj kvs \<Rightarrow> True | _ \<Rightarrow> result f = Some neutral_result"
    using review_field_non_object [where parsed = parsed and f = f and body = body] r
    by (cases "get parsed f") simp_all
qed

theorem spellcheck_every_reviewed_field_witness:
  "spellcheck \<lparr>ADMIN_PASSWORD = Some ''secret'', OPENAI_API_KEY = Some ''key''\<rparr> (Some ''1'')
     (JObj [(''term'', JStr ''Tisch''), (''definition'', JStr ''ein Moebel'')])
     (Completion (Parsed (JObj [(''definition'', JStr ''nichts'')])) ''gpt-4o'')
   = Inr (foldl (\<lambda>result field. result(field \<mapsto>
            review_field (JObj [(''term'', JStr ''Tisch''), (''definition'', JStr ''ein Moebel'')])
              (JObj [(''definition'', JStr ''nichts'')]) field))
          Map.empty [''term'', ''definition''])
   \<and> ''term'' \<in> set (fieldsToReview
        (JObj [(''term'', JStr ''Tisch''), (''definition'', JStr ''ein Moebel'')]))
   \<and> (foldl (\<lambda>result field. result(field \<mapsto>
            review_field (JObj [(''term'', JStr ''Tisch''), (''definition'', JStr ''ein Moebel'')])
              (JObj [(''definition'', JStr ''nichts'')]) field))
          Map.empty [''term'', ''definition'']) ''term'' = Some neutral_result"
proof -
  let ?cfg = "\<lparr>ADMIN_PASSWORD = Some ''secret'', OPENAI_API_KEY = Some ''key''\<rparr>"
  let ?body = "JObj [(''term'', JStr ''Tisch''), (''definition'', JStr ''ein Moebel'')]"
  let ?parsed = "JObj [(''definition'', JStr ''nichts'')]"
  let ?m = "foldl (\<lambda>result field. result(field \<mapsto> review_field ?body ?parsed field))
          Map.empty [''term'', ''definition'']"
  have fs: "fieldsToReview ?body = [''term'', ''definition'']"
    by (simp add: fieldsToReview_def requestedFields_def allowedFields_def)
  have run: "spellcheck ?cfg (Some ''1'') ?body (Completion (Parsed ?parsed) ''gpt-4o'') = Inr ?m"
    unfolding spellcheck_def Let_def fieldsToReview_js_or review_field_js_or fs
    by (simp add: is_set_def)
  have mem: "''term'' \<in> set (fieldsToReview ?body)"
    unfolding fs by simp
  from spellcheck_every_reviewed_field [OF run]
  have "\<forall>f \<in> set (fieldsToReview ?body).
          ?m f = Some (review_field ?body ?parsed f)
          \<and> (case get ?parsed f of JObj kvs \<Rightarrow> True | _ \<Rightarrow> ?m f = Some neutral_result)"
    by blast
  from this mem
  have "case get ?parsed ''term'' of JObj kvs \<Rightarrow> True | _ \<Rightarrow> ?m ''term'' = Some neutral_result"
    by blast
  then have c: "?m ''term'' = Some neutral_result"
    by simp
  show ?thesis using run mem c by (intro conjI)
qed
section \<open>Capitalization of a noun\<close>









section \<open>Normalizing the alternatives of the oracle\<close>













section \<open>Storing only new alternatives\<close>



















lemma find_item_stored:
  "{e \<in> set (find_item coll q). situation e = k} = set (stored coll (trim q) k)"
  by (auto simp: find_item_def stored_def)






section \<open>The aggregated view\<close>














end
